theory Spec2Isabelle
  imports Main
begin

section \<open>upgrade\_fbx: the FBX SDK as an opaque, stateful interface\<close>

text \<open>
  \<^verbatim>\<open>tools/upgrade_fbx.cpp\<close> is one procedure, \<^verbatim>\<open>main\<close>, that calls the FBX SDK in a fixed
  order. The SDK is closed: nothing of it is in the repository. It is therefore a parameter
  of the model, a record of state transformers over an arbitrary world \<open>'w\<close> (the SDK's heap
  and the filesystem it reads and writes) that hands out object pointers \<open>'h\<close>. Every theorem
  below holds for each such record and each starting world.

  The field names are the SDK entry points the source calls. \<open>FbxManager_Create\<close> returns
  \<open>None\<close> for the null pointer, the only result the source tests. \<open>Importer_GetErrorString\<close>
  and \<open>Exporter_GetErrorString\<close> stand for \<^verbatim>\<open>GetStatus().GetErrorString()\<close> on the importer and
  the exporter. \<open>IOSROOT\<close> is the SDK's macro of that name, whose value the repository does
  not hold.
\<close>

record ('w, 'h) fbxsdk =
  IOSROOT :: string
  FbxManager_Create :: "'w \<Rightarrow> 'h option \<times> 'w"
  FbxIOSettings_Create :: "'h \<Rightarrow> string \<Rightarrow> 'w \<Rightarrow> 'h \<times> 'w"
  SetIOSettings :: "'h \<Rightarrow> 'h \<Rightarrow> 'w \<Rightarrow> unit \<times> 'w"
  GetIOSettings :: "'h \<Rightarrow> 'w \<Rightarrow> 'h \<times> 'w"
  FbxImporter_Create :: "'h \<Rightarrow> string \<Rightarrow> 'w \<Rightarrow> 'h \<times> 'w"
  Importer_Initialize :: "'h \<Rightarrow> string \<Rightarrow> int \<Rightarrow> 'h \<Rightarrow> 'w \<Rightarrow> bool \<times> 'w"
  Importer_GetErrorString :: "'h \<Rightarrow> 'w \<Rightarrow> string \<times> 'w"
  FbxScene_Create :: "'h \<Rightarrow> string \<Rightarrow> 'w \<Rightarrow> 'h \<times> 'w"
  Importer_Import :: "'h \<Rightarrow> 'h \<Rightarrow> 'w \<Rightarrow> bool \<times> 'w"
  Importer_Destroy :: "'h \<Rightarrow> 'w \<Rightarrow> unit \<times> 'w"
  FbxExporter_Create :: "'h \<Rightarrow> string \<Rightarrow> 'w \<Rightarrow> 'h \<times> 'w"
  Exporter_Initialize :: "'h \<Rightarrow> string \<Rightarrow> int \<Rightarrow> 'h \<Rightarrow> 'w \<Rightarrow> bool \<times> 'w"
  Exporter_GetErrorString :: "'h \<Rightarrow> 'w \<Rightarrow> string \<times> 'w"
  Exporter_Export :: "'h \<Rightarrow> 'h \<Rightarrow> 'w \<Rightarrow> bool \<times> 'w"
  Exporter_Destroy :: "'h \<Rightarrow> 'w \<Rightarrow> unit \<times> 'w"
  Manager_Destroy :: "'h \<Rightarrow> 'w \<Rightarrow> unit \<times> 'w"

text \<open>
  One event per SDK call the program makes: the receiver and the arguments in the order of
  the C++ call, then what the call returned (nothing for a \<^verbatim>\<open>void\<close> call).
\<close>

datatype 'h event =
    Ev_FbxManager_Create "'h option"
  | Ev_FbxIOSettings_Create 'h string 'h
  | Ev_SetIOSettings 'h 'h
  | Ev_GetIOSettings 'h 'h
  | Ev_FbxImporter_Create 'h string 'h
  | Ev_Importer_Initialize 'h string int 'h bool
  | Ev_Importer_GetErrorString 'h string
  | Ev_FbxScene_Create 'h string 'h
  | Ev_Importer_Import 'h 'h bool
  | Ev_Importer_Destroy 'h
  | Ev_FbxExporter_Create 'h string 'h
  | Ev_Exporter_Initialize 'h string int 'h bool
  | Ev_Exporter_GetErrorString 'h string
  | Ev_Exporter_Export 'h 'h bool
  | Ev_Exporter_Destroy 'h
  | Ev_Manager_Destroy 'h

text \<open>
  The state of the process: the world the SDK acts on, the SDK calls made so far (oldest
  first) and the lines written to \<^verbatim>\<open>std::cout\<close>, one per \<^verbatim>\<open>std::endl\<close>.
\<close>

record ('w, 'h) proc =
  world :: 'w
  calls :: "'h event list"
  cout :: "string list"

definition start :: "'w \<Rightarrow> ('w, 'h) proc" where
  "start w = \<lparr>world = w, calls = [], cout = []\<rparr>"

definition invoke ::
  "('w \<Rightarrow> 'r \<times> 'w) \<Rightarrow> ('r \<Rightarrow> 'h event) \<Rightarrow> ('w, 'h) proc \<Rightarrow> 'r \<times> ('w, 'h) proc" where
  "invoke f ev s =
     (case f (world s) of
        (r, w') \<Rightarrow> (r, s\<lparr>world := w', calls := calls s @ [ev r]\<rparr>))"

definition println :: "string \<Rightarrow> ('w, 'h) proc \<Rightarrow> ('w, 'h) proc" where
  "println l s = s\<lparr>cout := cout s @ [l]\<rparr>"

subsection \<open>The entry point\<close>

text \<open>
  \<open>main sdk argv w\<close> is \<^verbatim>\<open>main(argc, argv)\<close> with \<open>argc = length argv\<close>, run against \<open>sdk\<close> from
  the world \<open>w\<close>. It returns the exit code and the final process state. With an empty
  \<open>argv\<close> the usage line would stream the null pointer \<^verbatim>\<open>argv[0]\<close>, which C++ leaves
  undefined: the model returns \<open>None\<close> there. The source dereferences the pointers that
  \<^verbatim>\<open>FbxIOSettings::Create\<close>, \<^verbatim>\<open>FbxImporter::Create\<close>, \<^verbatim>\<open>FbxScene::Create\<close> and
  \<^verbatim>\<open>FbxExporter::Create\<close> return without a test, and discards what \<^verbatim>\<open>Import\<close> and \<^verbatim>\<open>Export\<close>
  return; so does the model.
\<close>

definition main ::
  "('w, 'h) fbxsdk \<Rightarrow> string list \<Rightarrow> 'w \<Rightarrow> (int \<times> ('w, 'h) proc) option" where
  "main sdk argv w =
    (if int (length argv) \<noteq> 3 then
       (case argv of
          [] \<Rightarrow> None
        | prog # _ \<Rightarrow>
            Some (1, println (''Usage: '' @ prog @ '' <input.fbx> <output.fbx>'') (start w)))
     else
       let inputFile = argv ! 1;
           outputFile = argv ! 2;
           (sdkManager, s1) = invoke (FbxManager_Create sdk) Ev_FbxManager_Create (start w)
       in case sdkManager of
         None \<Rightarrow> Some (1, println ''Error: Unable to create FBX Manager!'' s1)
       | Some mgr \<Rightarrow>
         let (ios, s2) = invoke (FbxIOSettings_Create sdk mgr (IOSROOT sdk))
                           (Ev_FbxIOSettings_Create mgr (IOSROOT sdk)) s1;
             (u3, s3) = invoke (SetIOSettings sdk mgr ios) (\<lambda>_. Ev_SetIOSettings mgr ios) s2;
             (importer, s4) = invoke (FbxImporter_Create sdk mgr '''')
                                (Ev_FbxImporter_Create mgr '''') s3;
             (ios_in, s5) = invoke (GetIOSettings sdk mgr) (Ev_GetIOSettings mgr) s4;
             (importStatus, s6) = invoke (Importer_Initialize sdk importer inputFile (- 1) ios_in)
                                    (Ev_Importer_Initialize importer inputFile (- 1) ios_in) s5
         in if \<not> importStatus then
           let s7 = println ''Error: Unable to initialize FBX importer!'' s6;
               (err, s8) = invoke (Importer_GetErrorString sdk importer)
                             (Ev_Importer_GetErrorString importer) s7
           in Some (1, println (''Error returned: '' @ err) s8)
         else
           let (scene, s7) = invoke (FbxScene_Create sdk mgr '''')
                               (Ev_FbxScene_Create mgr '''') s6;
               (imported, s8) = invoke (Importer_Import sdk importer scene)
                                  (Ev_Importer_Import importer scene) s7;
               (u9, s9) = invoke (Importer_Destroy sdk importer)
                            (\<lambda>_. Ev_Importer_Destroy importer) s8;
               (exporter, s10) = invoke (FbxExporter_Create sdk mgr '''')
                                   (Ev_FbxExporter_Create mgr '''') s9;
               (ios_out, s11) = invoke (GetIOSettings sdk mgr) (Ev_GetIOSettings mgr) s10;
               (exportStatus, s12) =
                  invoke (Exporter_Initialize sdk exporter outputFile (- 1) ios_out)
                    (Ev_Exporter_Initialize exporter outputFile (- 1) ios_out) s11
           in if \<not> exportStatus then
             let s13 = println ''Error: Unable to initialize FBX exporter!'' s12;
                 (err, s14) = invoke (Exporter_GetErrorString sdk exporter)
                                (Ev_Exporter_GetErrorString exporter) s13
             in Some (1, println (''Error returned: '' @ err) s14)
           else
             let (exported, s13) = invoke (Exporter_Export sdk exporter scene)
                                     (Ev_Exporter_Export exporter scene) s12;
                 (u14, s14) = invoke (Exporter_Destroy sdk exporter)
                                (\<lambda>_. Ev_Exporter_Destroy exporter) s13;
                 (u15, s15) = invoke (Manager_Destroy sdk mgr)
                                (\<lambda>_. Ev_Manager_Destroy mgr) s14
             in Some (0, println (''FBX file upgraded successfully: '' @ inputFile
                                    @ '' -> '' @ outputFile) s15))"

subsection \<open>What a run did, read off its SDK calls\<close>

text \<open>
  The file names handed to the SDK: \<^verbatim>\<open>FbxImporter::Initialize\<close> opens its file name for
  reading, \<^verbatim>\<open>FbxExporter::Initialize\<close> opens its file name for writing. No other call of
  the program takes a file name (the other strings are object names).
\<close>

fun read_path :: "'h event \<Rightarrow> string list" where
  "read_path (Ev_Importer_Initialize imp p fmt io ok) = [p]"
| "read_path _ = []"

fun written_path :: "'h event \<Rightarrow> string list" where
  "written_path (Ev_Exporter_Initialize exp p fmt io ok) = [p]"
| "written_path _ = []"

definition paths_read :: "'h event list \<Rightarrow> string list" where
  "paths_read tr = concat (map read_path tr)"

definition paths_written :: "'h event list \<Rightarrow> string list" where
  "paths_written tr = concat (map written_path tr)"

text \<open>What the two \<^verbatim>\<open>Initialize\<close> calls returned, and the error strings the SDK gave.\<close>

fun importer_result :: "'h event \<Rightarrow> bool list" where
  "importer_result (Ev_Importer_Initialize imp p fmt io ok) = [ok]"
| "importer_result _ = []"

fun exporter_result :: "'h event \<Rightarrow> bool list" where
  "exporter_result (Ev_Exporter_Initialize exp p fmt io ok) = [ok]"
| "exporter_result _ = []"

fun importer_error :: "'h event \<Rightarrow> string list" where
  "importer_error (Ev_Importer_GetErrorString imp err) = [err]"
| "importer_error _ = []"

fun exporter_error :: "'h event \<Rightarrow> string list" where
  "exporter_error (Ev_Exporter_GetErrorString exp err) = [err]"
| "exporter_error _ = []"

definition importer_initialized :: "'h event list \<Rightarrow> bool" where
  "importer_initialized tr = (True \<in> set (concat (map importer_result tr)))"

definition importer_init_failed :: "'h event list \<Rightarrow> bool" where
  "importer_init_failed tr = (False \<in> set (concat (map importer_result tr)))"

definition exporter_initialized :: "'h event list \<Rightarrow> bool" where
  "exporter_initialized tr = (True \<in> set (concat (map exporter_result tr)))"

definition exporter_init_failed :: "'h event list \<Rightarrow> bool" where
  "exporter_init_failed tr = (False \<in> set (concat (map exporter_result tr)))"

definition importer_errors :: "'h event list \<Rightarrow> string list" where
  "importer_errors tr = concat (map importer_error tr)"

definition exporter_errors :: "'h event list \<Rightarrow> string list" where
  "exporter_errors tr = concat (map exporter_error tr)"


fun exported_scene :: "'h event \<Rightarrow> 'h list" where
  "exported_scene (Ev_Exporter_Export exp scn ok) = [scn]"
| "exported_scene _ = []"

definition scenes_exported :: "'h event list \<Rightarrow> 'h list" where
  "scenes_exported tr = concat (map exported_scene tr)"

text \<open>
  The SDK objects of a run. An object is created by the \<^verbatim>\<open>Create\<close> call that returns it (a
  null manager is no object) and explicitly released by a \<^verbatim>\<open>Destroy\<close> call on it. The
  program calls \<^verbatim>\<open>Destroy\<close> on importers, exporters and managers only. What the manager's
  \<^verbatim>\<open>Destroy\<close> does to the objects made from it is the SDK's business and not recorded.
\<close>

datatype resource = Manager | IOSettings | Importer | Scene | Exporter

fun creates :: "'h event \<Rightarrow> (resource \<times> 'h) list" where
  "creates (Ev_FbxManager_Create (Some mgr)) = [(Manager, mgr)]"
| "creates (Ev_FbxIOSettings_Create mgr name ios) = [(IOSettings, ios)]"
| "creates (Ev_FbxImporter_Create mgr name imp) = [(Importer, imp)]"
| "creates (Ev_FbxScene_Create mgr name scn) = [(Scene, scn)]"
| "creates (Ev_FbxExporter_Create mgr name exp) = [(Exporter, exp)]"
| "creates _ = []"

fun releases :: "'h event \<Rightarrow> (resource \<times> 'h) list" where
  "releases (Ev_Importer_Destroy imp) = [(Importer, imp)]"
| "releases (Ev_Exporter_Destroy exp) = [(Exporter, exp)]"
| "releases (Ev_Manager_Destroy mgr) = [(Manager, mgr)]"
| "releases _ = []"

definition created :: "'h event list \<Rightarrow> (resource \<times> 'h) list" where
  "created tr = concat (map creates tr)"

definition released :: "'h event list \<Rightarrow> (resource \<times> 'h) list" where
  "released tr = concat (map releases tr)"

definition unreleased :: "'h event list \<Rightarrow> (resource \<times> 'h) list" where
  "unreleased tr = filter (\<lambda>x. x \<notin> set (released tr)) (created tr)"

subsection \<open>The recorded calls against the SDK\<close>

text \<open>
  What an event claims, checked against the SDK itself. \<open>sdk_step sdk e w\<close> makes the call
  that \<open>e\<close> names, with the receiver and arguments \<open>e\<close> holds, on the world \<open>w\<close>: it gives the
  world the SDK leaves when the SDK returns what \<open>e\<close> says was returned, and \<open>None\<close> when the
  SDK returns something else. \<open>replay sdk tr w\<close> makes the calls of \<open>tr\<close> one after the other
  from \<open>w\<close>. So \<open>replay sdk tr w = Some w'\<close> says that the calls of \<open>tr\<close>, in this order and
  no others, take the SDK from \<open>w\<close> to \<open>w'\<close> and returned what \<open>tr\<close> holds.
\<close>

fun sdk_step :: "('w, 'h) fbxsdk \<Rightarrow> 'h event \<Rightarrow> 'w \<Rightarrow> 'w option" where
  "sdk_step sdk (Ev_FbxManager_Create r) w =
     (if fst (FbxManager_Create sdk w) = r
      then Some (snd (FbxManager_Create sdk w)) else None)"
| "sdk_step sdk (Ev_FbxIOSettings_Create mgr name r) w =
     (if fst (FbxIOSettings_Create sdk mgr name w) = r
      then Some (snd (FbxIOSettings_Create sdk mgr name w)) else None)"
| "sdk_step sdk (Ev_SetIOSettings mgr ios) w = Some (snd (SetIOSettings sdk mgr ios w))"
| "sdk_step sdk (Ev_GetIOSettings mgr r) w =
     (if fst (GetIOSettings sdk mgr w) = r
      then Some (snd (GetIOSettings sdk mgr w)) else None)"
| "sdk_step sdk (Ev_FbxImporter_Create mgr name r) w =
     (if fst (FbxImporter_Create sdk mgr name w) = r
      then Some (snd (FbxImporter_Create sdk mgr name w)) else None)"
| "sdk_step sdk (Ev_Importer_Initialize imp p fmt io r) w =
     (if fst (Importer_Initialize sdk imp p fmt io w) = r
      then Some (snd (Importer_Initialize sdk imp p fmt io w)) else None)"
| "sdk_step sdk (Ev_Importer_GetErrorString imp r) w =
     (if fst (Importer_GetErrorString sdk imp w) = r
      then Some (snd (Importer_GetErrorString sdk imp w)) else None)"
| "sdk_step sdk (Ev_FbxScene_Create mgr name r) w =
     (if fst (FbxScene_Create sdk mgr name w) = r
      then Some (snd (FbxScene_Create sdk mgr name w)) else None)"
| "sdk_step sdk (Ev_Importer_Import imp scn r) w =
     (if fst (Importer_Import sdk imp scn w) = r
      then Some (snd (Importer_Import sdk imp scn w)) else None)"
| "sdk_step sdk (Ev_Importer_Destroy imp) w = Some (snd (Importer_Destroy sdk imp w))"
| "sdk_step sdk (Ev_FbxExporter_Create mgr name r) w =
     (if fst (FbxExporter_Create sdk mgr name w) = r
      then Some (snd (FbxExporter_Create sdk mgr name w)) else None)"
| "sdk_step sdk (Ev_Exporter_Initialize exp p fmt io r) w =
     (if fst (Exporter_Initialize sdk exp p fmt io w) = r
      then Some (snd (Exporter_Initialize sdk exp p fmt io w)) else None)"
| "sdk_step sdk (Ev_Exporter_GetErrorString exp r) w =
     (if fst (Exporter_GetErrorString sdk exp w) = r
      then Some (snd (Exporter_GetErrorString sdk exp w)) else None)"
| "sdk_step sdk (Ev_Exporter_Export exp scn r) w =
     (if fst (Exporter_Export sdk exp scn w) = r
      then Some (snd (Exporter_Export sdk exp scn w)) else None)"
| "sdk_step sdk (Ev_Exporter_Destroy exp) w = Some (snd (Exporter_Destroy sdk exp w))"
| "sdk_step sdk (Ev_Manager_Destroy mgr) w = Some (snd (Manager_Destroy sdk mgr w))"

fun replay :: "('w, 'h) fbxsdk \<Rightarrow> 'h event list \<Rightarrow> 'w \<Rightarrow> 'w option" where
  "replay sdk [] w = Some w"
| "replay sdk (e # es) w =
     (case sdk_step sdk e w of None \<Rightarrow> None | Some w' \<Rightarrow> replay sdk es w')"

subsection \<open>Reading a finished run\<close>

text \<open>
  The exit code, the SDK calls, the printed lines and the world of what \<open>main\<close> returned.
  Where the program's behaviour is undefined there is no exit code, no call, no line and
  no world.
\<close>

definition exit_code :: "(int \<times> ('w, 'h) proc) option \<Rightarrow> int option" where
  "exit_code r = map_option fst r"

definition sdk_calls :: "(int \<times> ('w, 'h) proc) option \<Rightarrow> 'h event list" where
  "sdk_calls r = (case r of None \<Rightarrow> [] | Some (code, s) \<Rightarrow> calls s)"

definition printed :: "(int \<times> ('w, 'h) proc) option \<Rightarrow> string list" where
  "printed r = (case r of None \<Rightarrow> [] | Some (code, s) \<Rightarrow> cout s)"

definition final_world :: "(int \<times> ('w, 'h) proc) option \<Rightarrow> 'w option" where
  "final_world r = (case r of None \<Rightarrow> None | Some (code, s) \<Rightarrow> Some (world s))"

subsection \<open>A small SDK to run the program on\<close>

text \<open>
  An instance of the interface for evaluating \<open>main\<close> on concrete command lines. Its world is
  the list of files that exist; objects are numbered. A file can be read when it exists,
  and written when its name is not empty.
\<close>

definition demo_sdk :: "(string list, nat) fbxsdk" where
  "demo_sdk =
    \<lparr>IOSROOT = ''IOSRoot'',
     FbxManager_Create = (\<lambda>w. (Some 1, w)),
     FbxIOSettings_Create = (\<lambda>mgr name w. (2, w)),
     SetIOSettings = (\<lambda>mgr ios w. ((), w)),
     GetIOSettings = (\<lambda>mgr w. (2, w)),
     FbxImporter_Create = (\<lambda>mgr name w. (3, w)),
     Importer_Initialize = (\<lambda>imp p fmt ios w. (p \<in> set w, w)),
     Importer_GetErrorString = (\<lambda>imp w. (''File not found'', w)),
     FbxScene_Create = (\<lambda>mgr name w. (4, w)),
     Importer_Import = (\<lambda>imp scn w. (True, w)),
     Importer_Destroy = (\<lambda>imp w. ((), w)),
     FbxExporter_Create = (\<lambda>mgr name w. (5, w)),
     Exporter_Initialize = (\<lambda>exp p fmt ios w. (p \<noteq> [], if p \<noteq> [] then p # w else w)),
     Exporter_GetErrorString = (\<lambda>exp w. (''Cannot open file for writing'', w)),
     Exporter_Export = (\<lambda>exp scn w. (True, w)),
     Exporter_Destroy = (\<lambda>exp w. ((), w)),
     Manager_Destroy = (\<lambda>mgr w. ((), w))\<rparr>"

definition no_manager_sdk :: "(string list, nat) fbxsdk" where
  "no_manager_sdk = demo_sdk\<lparr>FbxManager_Create := (\<lambda>w. (None, w))\<rparr>"

section \<open>Properties of the entry point\<close>

lemmas observers =
  paths_read_def paths_written_def importer_initialized_def importer_init_failed_def
  exporter_initialized_def exporter_init_failed_def importer_errors_def exporter_errors_def
  scenes_exported_def created_def released_def unreleased_def

lemmas run_defs = exit_code_def sdk_calls_def printed_def final_world_def

text \<open>
  A call through \<open>invoke\<close>, with the pair the SDK returns taken apart; and \<open>main\<close> returns
  whenever it is given a program name.
\<close>

lemma invoke_split:
  "invoke f ev s =
     (fst (f (world s)),
      s\<lparr>world := snd (f (world s)), calls := calls s @ [ev (fst (f (world s)))]\<rparr>)"
  by (simp add: invoke_def split: prod.splits)

lemma main_returns:
  assumes "argv \<noteq> []"
  shows "\<exists>code s. main sdk argv w = Some (code, s)"
  using assms
  by (auto simp: main_def invoke_split Let_def split: list.splits option.splits)

text \<open>
  The calls a run has recorded are the calls it has made: made again from the starting
  world, on the same SDK, they return what was recorded and leave the world the run ended
  in. A call made and not recorded, a call recorded and not made, a call made with other
  arguments or on another world than recorded would each break this for some SDK.
\<close>

lemma main_replay:
  assumes "main sdk argv w = Some (code, s)"
  shows "replay sdk (calls s) w = Some (world s)"
proof (cases "length argv = 3")
  case False
  with assms show ?thesis
    by (auto simp: main_def println_def start_def split: list.splits)
next
  case len: True
  show ?thesis
  proof (cases "fst (FbxManager_Create sdk w)")
    case None
    with assms len show ?thesis
      by (auto simp: main_def invoke_split println_def start_def Let_def)
  next
    case (Some mgr)
    with assms len show ?thesis
      by (auto simp: main_def invoke_split println_def start_def Let_def split: if_splits)
  qed
qed

lemma run_replay:
  assumes "main sdk argv w = Some (code, s)"
  shows "replay sdk (sdk_calls (main sdk argv w)) w = final_world (main sdk argv w)"
  using main_replay [OF assms] by (simp add: assms run_defs)

text \<open>
  Three runs against \<open>demo_sdk\<close>: the source exists; it does not; it exists and the
  destination name is empty.
\<close>

lemma demo_success:
  "main demo_sdk [''upgrade_fbx'', ''in.fbx'', ''out.fbx''] [''in.fbx''] =
     Some (0, \<lparr>world = [''out.fbx'', ''in.fbx''],
               calls = [Ev_FbxManager_Create (Some 1),
                        Ev_FbxIOSettings_Create 1 ''IOSRoot'' 2,
                        Ev_SetIOSettings 1 2,
                        Ev_FbxImporter_Create 1 [] 3,
                        Ev_GetIOSettings 1 2,
                        Ev_Importer_Initialize 3 ''in.fbx'' (- 1) 2 True,
                        Ev_FbxScene_Create 1 [] 4,
                        Ev_Importer_Import 3 4 True,
                        Ev_Importer_Destroy 3,
                        Ev_FbxExporter_Create 1 [] 5,
                        Ev_GetIOSettings 1 2,
                        Ev_Exporter_Initialize 5 ''out.fbx'' (- 1) 2 True,
                        Ev_Exporter_Export 5 4 True,
                        Ev_Exporter_Destroy 5,
                        Ev_Manager_Destroy 1],
               cout = [''FBX file upgraded successfully: in.fbx -> out.fbx'']\<rparr>)"
  by (simp add: main_def invoke_def println_def start_def demo_sdk_def Let_def)

lemma demo_import_failure:
  "main demo_sdk [''upgrade_fbx'', ''in.fbx'', ''out.fbx''] [] =
     Some (1, \<lparr>world = [],
               calls = [Ev_FbxManager_Create (Some 1),
                        Ev_FbxIOSettings_Create 1 ''IOSRoot'' 2,
                        Ev_SetIOSettings 1 2,
                        Ev_FbxImporter_Create 1 [] 3,
                        Ev_GetIOSettings 1 2,
                        Ev_Importer_Initialize 3 ''in.fbx'' (- 1) 2 False,
                        Ev_Importer_GetErrorString 3 ''File not found''],
               cout = [''Error: Unable to initialize FBX importer!'',
                       ''Error returned: File not found'']\<rparr>)"
  by (simp add: main_def invoke_def println_def start_def demo_sdk_def Let_def)

lemma demo_export_failure:
  "main demo_sdk [''upgrade_fbx'', ''in.fbx'', ''''] [''in.fbx''] =
     Some (1, \<lparr>world = [''in.fbx''],
               calls = [Ev_FbxManager_Create (Some 1),
                        Ev_FbxIOSettings_Create 1 ''IOSRoot'' 2,
                        Ev_SetIOSettings 1 2,
                        Ev_FbxImporter_Create 1 [] 3,
                        Ev_GetIOSettings 1 2,
                        Ev_Importer_Initialize 3 ''in.fbx'' (- 1) 2 True,
                        Ev_FbxScene_Create 1 [] 4,
                        Ev_Importer_Import 3 4 True,
                        Ev_Importer_Destroy 3,
                        Ev_FbxExporter_Create 1 [] 5,
                        Ev_GetIOSettings 1 2,
                        Ev_Exporter_Initialize 5 [] (- 1) 2 False,
                        Ev_Exporter_GetErrorString 5 ''Cannot open file for writing''],
               cout = [''Error: Unable to initialize FBX exporter!'',
                       ''Error returned: Cannot open file for writing'']\<rparr>)"
  by (simp add: main_def invoke_def println_def start_def demo_sdk_def Let_def)

text \<open>
  The five ways a run ends, each with the SDK calls it has made, in order, and the lines it
  has printed: wrong argument count, null manager, importer not initialized, exporter not
  initialized, success.
\<close>

lemma main_cases:
  assumes "main sdk argv w = Some (code, s)"
  obtains
    (usage) "length argv \<noteq> 3" "code = 1" "calls s = []" "world s = w"
      "cout s = [''Usage: '' @ hd argv @ '' <input.fbx> <output.fbx>'']"
  | (no_manager) "length argv = 3" "code = 1" "calls s = [Ev_FbxManager_Create None]"
      "cout s = [''Error: Unable to create FBX Manager!'']"
  | (import_failed) mgr ios imp ios_in err where "length argv = 3" "code = 1"
      "calls s =
         [Ev_FbxManager_Create (Some mgr),
          Ev_FbxIOSettings_Create mgr (IOSROOT sdk) ios,
          Ev_SetIOSettings mgr ios,
          Ev_FbxImporter_Create mgr '''' imp,
          Ev_GetIOSettings mgr ios_in,
          Ev_Importer_Initialize imp (argv ! 1) (- 1) ios_in False,
          Ev_Importer_GetErrorString imp err]"
      "cout s = [''Error: Unable to initialize FBX importer!'', ''Error returned: '' @ err]"
  | (export_failed) mgr ios imp ios_in scn imported exp ios_out err where
      "length argv = 3" "code = 1"
      "calls s =
         [Ev_FbxManager_Create (Some mgr),
          Ev_FbxIOSettings_Create mgr (IOSROOT sdk) ios,
          Ev_SetIOSettings mgr ios,
          Ev_FbxImporter_Create mgr '''' imp,
          Ev_GetIOSettings mgr ios_in,
          Ev_Importer_Initialize imp (argv ! 1) (- 1) ios_in True,
          Ev_FbxScene_Create mgr '''' scn,
          Ev_Importer_Import imp scn imported,
          Ev_Importer_Destroy imp,
          Ev_FbxExporter_Create mgr '''' exp,
          Ev_GetIOSettings mgr ios_out,
          Ev_Exporter_Initialize exp (argv ! 2) (- 1) ios_out False,
          Ev_Exporter_GetErrorString exp err]"
      "cout s = [''Error: Unable to initialize FBX exporter!'', ''Error returned: '' @ err]"
  | (success) mgr ios imp ios_in scn imported exp ios_out exported where
      "length argv = 3" "code = 0"
      "calls s =
         [Ev_FbxManager_Create (Some mgr),
          Ev_FbxIOSettings_Create mgr (IOSROOT sdk) ios,
          Ev_SetIOSettings mgr ios,
          Ev_FbxImporter_Create mgr '''' imp,
          Ev_GetIOSettings mgr ios_in,
          Ev_Importer_Initialize imp (argv ! 1) (- 1) ios_in True,
          Ev_FbxScene_Create mgr '''' scn,
          Ev_Importer_Import imp scn imported,
          Ev_Importer_Destroy imp,
          Ev_FbxExporter_Create mgr '''' exp,
          Ev_GetIOSettings mgr ios_out,
          Ev_Exporter_Initialize exp (argv ! 2) (- 1) ios_out True,
          Ev_Exporter_Export exp scn exported,
          Ev_Exporter_Destroy exp,
          Ev_Manager_Destroy mgr]"
      "cout s = [''FBX file upgraded successfully: '' @ argv ! 1 @ '' -> '' @ argv ! 2]"
proof (cases "length argv = 3")
  case False
  with assms usage show ?thesis
    by (auto simp: main_def println_def start_def split: list.splits)
next
  case len: True
  show ?thesis
  proof (cases "fst (FbxManager_Create sdk w)")
    case None
    with assms len no_manager show ?thesis
      by (auto simp: main_def invoke_split println_def start_def Let_def)
  next
    case (Some mgr)
    show ?thesis
      using assms len Some import_failed export_failed success
      by (auto simp: main_def invoke_split println_def start_def Let_def split: if_splits)
  qed
qed

subsection \<open>Exit codes\<close>



subsection \<open>Wrong argument count\<close>

text \<open>
  C2. Invoked with a program name and any number of arguments other than two, \<open>main\<close> prints
  the usage line and returns 1, having made no SDK call at all: no file is opened, no SDK
  object is created, and the world is as it was.
\<close>

theorem wrong_argc_usage:
  assumes "argv \<noteq> []" and "length argv \<noteq> 3"
  shows "main sdk argv w =
           Some (1, \<lparr>world = w, calls = [],
                     cout = [''Usage: '' @ argv ! 0 @ '' <input.fbx> <output.fbx>'']\<rparr>)"
  using assms by (cases argv) (simp_all add: main_def println_def start_def)

theorem wrong_argc_usage_witness:
  "[''upgrade_fbx'', ''a.fbx'', ''b.fbx'', ''c.fbx''] \<noteq> [] \<and>
   length [''upgrade_fbx'', ''a.fbx'', ''b.fbx'', ''c.fbx''] \<noteq> 3 \<and>
   main demo_sdk [''upgrade_fbx'', ''a.fbx'', ''b.fbx'', ''c.fbx''] [''a.fbx''] =
     Some (1, \<lparr>world = [''a.fbx''], calls = [],
               cout = [''Usage: upgrade_fbx <input.fbx> <output.fbx>'']\<rparr>)"
  using wrong_argc_usage
    [of "[''upgrade_fbx'', ''a.fbx'', ''b.fbx'', ''c.fbx'']" demo_sdk "[''a.fbx'']"]
  by simp

subsection \<open>Importer initialization fails\<close>

text \<open>
  C3. When the importer's \<^verbatim>\<open>Initialize\<close> returns false, \<open>main\<close> returns 1 and prints, after
  its own error line, \<^verbatim>\<open>Error returned: \<close> followed by the error string the SDK gave for
  that importer. The SDK calls of the run are the seven listed, and the world at exit is
  the one these seven calls leave: no exporter is created or initialized, \<^verbatim>\<open>Export\<close> is not
  called, and no file name is handed to the SDK for writing. The one file name the SDK
  receives is \<^verbatim>\<open>argv[1]\<close>, as the file the importer reads; \<^verbatim>\<open>argv[2]\<close> is used in no call, so
  the program does nothing that creates or modifies the destination.
\<close>

theorem import_failure:
  fixes sdk :: "('w, 'h) fbxsdk" and argv :: "string list" and w :: 'w
  defines "r \<equiv> main sdk argv w"
  assumes "importer_init_failed (sdk_calls r)"
  shows "replay sdk (sdk_calls r) w = final_world r \<and>
         (exit_code r = Some 1 \<and>
          (\<exists>mgr ios imp ios_in err.
             sdk_calls r =
               [Ev_FbxManager_Create (Some mgr),
                Ev_FbxIOSettings_Create mgr (IOSROOT sdk) ios,
                Ev_SetIOSettings mgr ios,
                Ev_FbxImporter_Create mgr '''' imp,
                Ev_GetIOSettings mgr ios_in,
                Ev_Importer_Initialize imp (argv ! 1) (- 1) ios_in False,
                Ev_Importer_GetErrorString imp err] \<and>
             printed r = [''Error: Unable to initialize FBX importer!'',
                          ''Error returned: '' @ err]) \<and>
          Exporter \<notin> fst ` set (created (sdk_calls r)) \<and>
          scenes_exported (sdk_calls r) = [] \<and>
          paths_written (sdk_calls r) = [] \<and>
          paths_read (sdk_calls r) = [argv ! 1])"
    (is "?replayed \<and> ?rest")
proof (cases "main sdk argv w")
  case None
  with assms show ?thesis by (simp add: run_defs observers)
next
  case (Some a)
  then obtain code s where m: "main sdk argv w = Some (code, s)" by (cases a) simp
  have rp: ?replayed unfolding r_def by (rule run_replay [OF m])
  from m assms(2) have rest: ?rest unfolding r_def
    by (cases rule: main_cases) (simp_all add: m run_defs observers)
  from rp rest show ?thesis by (rule conjI)
qed

theorem import_failure_witness:
  "importer_init_failed
     (sdk_calls (main demo_sdk [''upgrade_fbx'', ''in.fbx'', ''out.fbx''] [])) \<and>
   exit_code (main demo_sdk [''upgrade_fbx'', ''in.fbx'', ''out.fbx''] []) = Some 1 \<and>
   printed (main demo_sdk [''upgrade_fbx'', ''in.fbx'', ''out.fbx''] []) =
     [''Error: Unable to initialize FBX importer!'', ''Error returned: File not found''] \<and>
   paths_written (sdk_calls (main demo_sdk [''upgrade_fbx'', ''in.fbx'', ''out.fbx''] [])) = [] \<and>
   paths_read (sdk_calls (main demo_sdk [''upgrade_fbx'', ''in.fbx'', ''out.fbx''] [])) =
     [''in.fbx''] \<and>
   final_world (main demo_sdk [''upgrade_fbx'', ''in.fbx'', ''out.fbx''] []) = Some []"
  using import_failure [where sdk = demo_sdk and w = "[]"
      and argv = "[''upgrade_fbx'', ''in.fbx'', ''out.fbx'']"]
  by (simp add: demo_import_failure run_defs observers)

subsection \<open>Exporter initialization fails\<close>

text \<open>
  C4. When the exporter's \<^verbatim>\<open>Initialize\<close> returns false, the importer had initialized, and
  \<open>main\<close> returns 1 and prints, after its own error line, \<^verbatim>\<open>Error returned: \<close> followed by
  the error string the SDK gave for that exporter. The SDK calls of the run are the
  thirteen listed, and the world at exit is the one they leave. The file name that failed
  is \<^verbatim>\<open>argv[2]\<close>. The importer's \<^verbatim>\<open>Destroy\<close> is the one release made, before the exporter is
  created: at exit the manager and the scene (and the I/O settings and the exporter) have
  not been released.
\<close>

theorem export_failure:
  fixes sdk :: "('w, 'h) fbxsdk" and argv :: "string list" and w :: 'w
  defines "r \<equiv> main sdk argv w"
  assumes "exporter_init_failed (sdk_calls r)"
  shows "replay sdk (sdk_calls r) w = final_world r \<and>
         (importer_initialized (sdk_calls r) \<and>
          exit_code r = Some 1 \<and>
          (\<exists>mgr ios imp ios_in scn imported exp ios_out err.
             sdk_calls r =
               [Ev_FbxManager_Create (Some mgr),
                Ev_FbxIOSettings_Create mgr (IOSROOT sdk) ios,
                Ev_SetIOSettings mgr ios,
                Ev_FbxImporter_Create mgr '''' imp,
                Ev_GetIOSettings mgr ios_in,
                Ev_Importer_Initialize imp (argv ! 1) (- 1) ios_in True,
                Ev_FbxScene_Create mgr '''' scn,
                Ev_Importer_Import imp scn imported,
                Ev_Importer_Destroy imp,
                Ev_FbxExporter_Create mgr '''' exp,
                Ev_GetIOSettings mgr ios_out,
                Ev_Exporter_Initialize exp (argv ! 2) (- 1) ios_out False,
                Ev_Exporter_GetErrorString exp err] \<and>
             exporter_errors (sdk_calls r) = [err] \<and>
             printed r = [''Error: Unable to initialize FBX exporter!'',
                          ''Error returned: '' @ err]) \<and>
          importer_errors (sdk_calls r) = [] \<and>
          paths_written (sdk_calls r) = [argv ! 2] \<and>
          map fst (released (sdk_calls r)) = [Importer] \<and>
          set (released (sdk_calls r)) \<subseteq> set (created (sdk_calls r)) \<and>
          map fst (unreleased (sdk_calls r)) = [Manager, IOSettings, Scene, Exporter])"
    (is "?replayed \<and> ?rest")
proof (cases "main sdk argv w")
  case None
  with assms show ?thesis by (simp add: run_defs observers)
next
  case (Some a)
  then obtain code s where m: "main sdk argv w = Some (code, s)" by (cases a) simp
  have rp: ?replayed unfolding r_def by (rule run_replay [OF m])
  from m assms(2) have rest: ?rest unfolding r_def
    by (cases rule: main_cases) (simp_all add: m run_defs observers)
  from rp rest show ?thesis by (rule conjI)
qed

theorem export_failure_witness:
  "exporter_init_failed
     (sdk_calls (main demo_sdk [''upgrade_fbx'', ''in.fbx'', ''''] [''in.fbx''])) \<and>
   exit_code (main demo_sdk [''upgrade_fbx'', ''in.fbx'', ''''] [''in.fbx'']) = Some 1 \<and>
   printed (main demo_sdk [''upgrade_fbx'', ''in.fbx'', ''''] [''in.fbx'']) =
     [''Error: Unable to initialize FBX exporter!'',
      ''Error returned: Cannot open file for writing''] \<and>
   exporter_errors (sdk_calls (main demo_sdk [''upgrade_fbx'', ''in.fbx'', ''''] [''in.fbx''])) =
     [''Cannot open file for writing''] \<and>
   released (sdk_calls (main demo_sdk [''upgrade_fbx'', ''in.fbx'', ''''] [''in.fbx''])) =
     [(Importer, 3)] \<and>
   unreleased (sdk_calls (main demo_sdk [''upgrade_fbx'', ''in.fbx'', ''''] [''in.fbx''])) =
     [(Manager, 1), (IOSettings, 2), (Scene, 4), (Exporter, 5)]"
  using export_failure [where sdk = demo_sdk and w = "[''in.fbx'']"
      and argv = "[''upgrade_fbx'', ''in.fbx'', '''']"]
  by (simp add: demo_export_failure run_defs observers)

subsection \<open>The scene that is exported\<close>



subsection \<open>Which objects are released\<close>

text \<open>
  C6, amended. On every exit path the objects \<open>main\<close> releases are objects it created, and
  they are: on the path that returns 0, the importer, the exporter and the manager, in
  this order, while the scene and the I/O settings get no \<^verbatim>\<open>Destroy\<close> call of their own; when
  the exporter fails to initialize, the importer only, so that the manager, the I/O
  settings, the scene and the exporter are unreleased at exit; when the importer fails to
  initialize, none, so that the manager, the I/O settings and the importer are unreleased
  at exit; with a wrong argument count or a null manager no object was created. The
  \<^verbatim>\<open>Create\<close> and \<^verbatim>\<open>Destroy\<close> calls counted are the ones the SDK received: the calls of the
  run, made again from the starting world, end in the run's final world.
\<close>

theorem resource_release:
  fixes sdk :: "('w, 'h) fbxsdk" and argv :: "string list" and w :: 'w
  defines "r \<equiv> main sdk argv w"
  assumes "argv \<noteq> []"
  shows "replay sdk (sdk_calls r) w = final_world r \<and>
         (set (released (sdk_calls r)) \<subseteq> set (created (sdk_calls r)) \<and>
          map fst (released (sdk_calls r)) =
            (if exit_code r = Some 0 then [Importer, Exporter, Manager]
             else if exporter_init_failed (sdk_calls r) then [Importer]
             else []) \<and>
          map fst (unreleased (sdk_calls r)) =
            (if exit_code r = Some 0 then [IOSettings, Scene]
             else if exporter_init_failed (sdk_calls r)
               then [Manager, IOSettings, Scene, Exporter]
             else if importer_init_failed (sdk_calls r) then [Manager, IOSettings, Importer]
             else []))"
    (is "?replayed \<and> ?rest")
proof -
  from main_returns [OF assms(2), of sdk w] obtain code s
    where m: "main sdk argv w = Some (code, s)"
    by blast
  have rp: ?replayed unfolding r_def by (rule run_replay [OF m])
  from m have rest: ?rest unfolding r_def
    by (cases rule: main_cases) (simp_all add: m run_defs observers)
  from rp rest show ?thesis by (rule conjI)
qed

theorem resource_release_witness:
  "[''upgrade_fbx'', ''in.fbx'', ''out.fbx''] \<noteq> [] \<and>
   released (sdk_calls (main demo_sdk [''upgrade_fbx'', ''in.fbx'', ''out.fbx''] [''in.fbx''])) =
     [(Importer, 3), (Exporter, 5), (Manager, 1)] \<and>
   unreleased (sdk_calls (main demo_sdk [''upgrade_fbx'', ''in.fbx'', ''out.fbx''] [''in.fbx''])) =
     [(IOSettings, 2), (Scene, 4)]"
  using resource_release [where sdk = demo_sdk and w = "[''in.fbx'']"
      and argv = "[''upgrade_fbx'', ''in.fbx'', ''out.fbx'']"]
  by (simp add: demo_success run_defs observers)

text \<open>
  C6 as first stated, with every created object released on every path but the one where
  the exporter fails to initialize, does not hold: when the source file does not exist the
  importer fails to initialize, the exporter's \<^verbatim>\<open>Initialize\<close> is never reached, and the
  manager, the I/O settings and the importer have been created and none released.
\<close>

theorem release_counterexample:
  "exit_code (main demo_sdk [''upgrade_fbx'', ''in.fbx'', ''out.fbx''] []) = Some 1 \<and>
   \<not> exporter_init_failed
       (sdk_calls (main demo_sdk [''upgrade_fbx'', ''in.fbx'', ''out.fbx''] [])) \<and>
   created (sdk_calls (main demo_sdk [''upgrade_fbx'', ''in.fbx'', ''out.fbx''] [])) =
     [(Manager, 1), (IOSettings, 2), (Importer, 3)] \<and>
   released (sdk_calls (main demo_sdk [''upgrade_fbx'', ''in.fbx'', ''out.fbx''] [])) = [] \<and>
   unreleased (sdk_calls (main demo_sdk [''upgrade_fbx'', ''in.fbx'', ''out.fbx''] [])) =
     [(Manager, 1), (IOSettings, 2), (Importer, 3)]"
  by (simp add: demo_import_failure run_defs observers)

subsection \<open>The two paths\<close>

text \<open>
  C7. With two arguments, the file name given to the importer's \<^verbatim>\<open>Initialize\<close> (called once
  the manager exists) is the string \<^verbatim>\<open>argv[1]\<close>, the file name given to the exporter's
  \<^verbatim>\<open>Initialize\<close> (called once the importer has initialized) is the string \<^verbatim>\<open>argv[2]\<close>, and a
  run that returns 0 prints one line, which holds both strings as they are. The two
  \<^verbatim>\<open>Initialize\<close> calls are the ones the SDK received, with these very file names: the calls
  of the run, made again from the starting world, end in the run's final world.
\<close>

theorem paths_verbatim:
  fixes sdk :: "('w, 'h) fbxsdk" and argv :: "string list" and w :: 'w
  defines "r \<equiv> main sdk argv w"
  assumes "length argv = 3"
  shows "replay sdk (sdk_calls r) w = final_world r \<and>
         (paths_read (sdk_calls r) =
            (if Manager \<in> fst ` set (created (sdk_calls r)) then [argv ! 1] else []) \<and>
          paths_written (sdk_calls r) =
            (if importer_initialized (sdk_calls r) then [argv ! 2] else []) \<and>
          (exit_code r = Some 0 \<longrightarrow>
             paths_read (sdk_calls r) = [argv ! 1] \<and>
             paths_written (sdk_calls r) = [argv ! 2] \<and>
             printed r =
               [''FBX file upgraded successfully: '' @ argv ! 1 @ '' -> '' @ argv ! 2]))"
    (is "?replayed \<and> ?rest")
proof -
  from assms(2) have "argv \<noteq> []" by auto
  from main_returns [OF this, of sdk w] obtain code s
    where m: "main sdk argv w = Some (code, s)"
    by blast
  have rp: ?replayed unfolding r_def by (rule run_replay [OF m])
  from m assms(2) have rest: ?rest unfolding r_def
    by (cases rule: main_cases) (simp_all add: m run_defs observers)
  from rp rest show ?thesis by (rule conjI)
qed

theorem paths_verbatim_witness:
  "length [''upgrade_fbx'', ''in.fbx'', ''out.fbx''] = 3 \<and>
   exit_code (main demo_sdk [''upgrade_fbx'', ''in.fbx'', ''out.fbx''] [''in.fbx'']) = Some 0 \<and>
   paths_read
     (sdk_calls (main demo_sdk [''upgrade_fbx'', ''in.fbx'', ''out.fbx''] [''in.fbx''])) =
     [''in.fbx''] \<and>
   paths_written
     (sdk_calls (main demo_sdk [''upgrade_fbx'', ''in.fbx'', ''out.fbx''] [''in.fbx''])) =
     [''out.fbx''] \<and>
   printed (main demo_sdk [''upgrade_fbx'', ''in.fbx'', ''out.fbx''] [''in.fbx'']) =
     [''FBX file upgraded successfully: in.fbx -> out.fbx'']"
  using paths_verbatim [where sdk = demo_sdk and w = "[''in.fbx'']"
      and argv = "[''upgrade_fbx'', ''in.fbx'', ''out.fbx'']"]
  by (simp add: demo_success run_defs observers)

text \<open>
  C8. On every run, each file name handed to the SDK for reading or for writing is one of
  the arguments after the program name: with two arguments, nothing but \<^verbatim>\<open>argv[1]\<close> is
  read and nothing but \<^verbatim>\<open>argv[2]\<close> is written, and with any other count no file name is
  handed over at all. No call is made besides the recorded ones: made again from the
  starting world, they end in the run's final world.
\<close>

theorem only_argument_paths:
  fixes sdk :: "('w, 'h) fbxsdk" and argv :: "string list" and w :: 'w
  defines "r \<equiv> main sdk argv w"
  assumes "argv \<noteq> []"
  shows "replay sdk (sdk_calls r) w = final_world r \<and>
         (set (paths_read (sdk_calls r) @ paths_written (sdk_calls r)) \<subseteq> set (tl argv) \<and>
          (length argv = 3 \<longrightarrow>
             set (paths_read (sdk_calls r)) \<subseteq> {argv ! 1} \<and>
             set (paths_written (sdk_calls r)) \<subseteq> {argv ! 2}) \<and>
          (length argv \<noteq> 3 \<longrightarrow>
             paths_read (sdk_calls r) = [] \<and> paths_written (sdk_calls r) = [] \<and>
             final_world r = Some w))"
    (is "?replayed \<and> ?rest")
proof -
  from main_returns [OF assms(2), of sdk w] obtain code s
    where m: "main sdk argv w = Some (code, s)"
    by blast
  have rp: ?replayed unfolding r_def by (rule run_replay [OF m])
  have tl3: "length argv = 3 \<Longrightarrow> argv ! Suc 0 \<in> set (tl argv) \<and> argv ! 2 \<in> set (tl argv)"
    by (auto simp: numeral_3_eq_3 length_Suc_conv)
  from m have rest: ?rest unfolding r_def
    by (cases rule: main_cases) (simp_all add: m run_defs observers tl3)
  from rp rest show ?thesis by (rule conjI)
qed

theorem only_argument_paths_witness:
  "[''upgrade_fbx'', ''in.fbx'', ''out.fbx''] \<noteq> [] \<and>
   length [''upgrade_fbx'', ''in.fbx'', ''out.fbx''] = 3 \<and>
   paths_read
     (sdk_calls (main demo_sdk [''upgrade_fbx'', ''in.fbx'', ''out.fbx''] [''in.fbx''])) @
   paths_written
     (sdk_calls (main demo_sdk [''upgrade_fbx'', ''in.fbx'', ''out.fbx''] [''in.fbx''])) =
     tl [''upgrade_fbx'', ''in.fbx'', ''out.fbx'']"
  using only_argument_paths [where sdk = demo_sdk and w = "[''in.fbx'']"
      and argv = "[''upgrade_fbx'', ''in.fbx'', ''out.fbx'']"]
  by (simp add: demo_success run_defs observers)

subsection \<open>No manager\<close>

text \<open>
  C10. With two arguments, when \<^verbatim>\<open>FbxManager::Create\<close> returns the null pointer, \<open>main\<close>
  prints \<^verbatim>\<open>Error: Unable to create FBX Manager!\<close> and returns 1. That call is the only SDK
  call of the run: no other object is created and no file name is handed over.
\<close>

theorem manager_null:
  assumes "length argv = 3" and "fst (FbxManager_Create sdk w) = None"
  shows "main sdk argv w =
           Some (1, \<lparr>world = snd (FbxManager_Create sdk w),
                     calls = [Ev_FbxManager_Create None],
                     cout = [''Error: Unable to create FBX Manager!'']\<rparr>)"
  using assms by (simp add: main_def invoke_split println_def start_def Let_def)

theorem manager_null_witness:
  "length [''upgrade_fbx'', ''in.fbx'', ''out.fbx''] = 3 \<and>
   fst (FbxManager_Create no_manager_sdk [''in.fbx'']) = None \<and>
   main no_manager_sdk [''upgrade_fbx'', ''in.fbx'', ''out.fbx''] [''in.fbx''] =
     Some (1, \<lparr>world = [''in.fbx''],
               calls = [Ev_FbxManager_Create None],
               cout = [''Error: Unable to create FBX Manager!'']\<rparr>)"
  using manager_null [of "[''upgrade_fbx'', ''in.fbx'', ''out.fbx'']" no_manager_sdk "[''in.fbx'']"]
  by (simp add: no_manager_sdk_def demo_sdk_def)

end
